theory Spec2Isabelle
  imports Main "HOL-Library.Sublist"
begin

section \<open>The video downloader API (main.py)\<close>

text \<open>
  The service has two request handlers, \<open>get_video_info\<close> (POST /info) and
  \<open>download_video\<close> (POST /download), and one helper, \<open>sanitize_filename\<close>.
  The media extractor (yt-dlp) is an external collaborator: the handlers are modelled
  with the extractor's answer as a parameter, so every theorem holds for whatever the
  extractor answers. An exception is a value: a handler returns what it raises.
\<close>

subsection \<open>Strings and the filename sanitizer\<close>

text \<open>
  A Python \<open>str\<close> is modelled as a \<open>string\<close>. The nine characters of the
  sanitizer's character class are ASCII, and no byte of a multi-byte UTF-8 sequence is
  an ASCII byte, so removing them byte-wise and code-point-wise is the same thing.
  \<open>CHR 0x5C\<close> is the backslash and \<open>CHR 0x22\<close> the double quote.
\<close>

definition invalid_chars :: "char list" where
  \<comment> \<open>the character class of the pattern \<open>[\\/*?:"<>|]\<close>, in the pattern's order\<close>
  "invalid_chars =
     [CHR 0x5C, CHR ''/'', CHR ''*'', CHR ''?'', CHR '':'', CHR 0x22, CHR ''<'', CHR ''>'', CHR ''|'']"

text \<open>
  \<open>re.sub(pattern, repl, string)\<close> for a pattern that is one character class: the
  subject is scanned from the left, every character of the class is a match and is
  replaced by \<open>repl\<close>, every other character is copied.
\<close>

fun re_sub_class :: "char list \<Rightarrow> string \<Rightarrow> string \<Rightarrow> string" where
  "re_sub_class cls repl [] = []"
| "re_sub_class cls repl (c # cs) =
     (if c \<in> set cls then repl @ re_sub_class cls repl cs
      else c # re_sub_class cls repl cs)"

definition sanitize_filename :: "string \<Rightarrow> string" where
  "sanitize_filename name = re_sub_class invalid_chars [] name"

subsection \<open>Python values of the extractor's records\<close>

text \<open>
  The fields the handlers read hold \<open>None\<close>, booleans, integers or strings.
  \<open>PObj t s\<close> stands for a value of any other type (a float, a list): the handlers
  only ask such a value for its truth value \<open>t\<close> and its \<open>str()\<close> rendering \<open>s\<close>.
\<close>

datatype pyval = PNone | PBool bool | PInt int | PStr string | PObj bool string

datatype py_error = KeyError string | TypeError | ValidationError | FileNotFoundError

type_synonym pydict = "string \<rightharpoonup> pyval"

definition dict_get :: "pydict \<Rightarrow> string \<Rightarrow> pyval" where
  \<comment> \<open>\<open>f.get(k)\<close>: \<open>None\<close> for a missing key\<close>
  "dict_get f k = (case f k of None \<Rightarrow> PNone | Some v \<Rightarrow> v)"

definition dict_item :: "pydict \<Rightarrow> string \<Rightarrow> py_error + pyval" where
  \<comment> \<open>\<open>f[k]\<close>: raises KeyError for a missing key\<close>
  "dict_item f k = (case f k of None \<Rightarrow> Inl (KeyError k) | Some v \<Rightarrow> Inr v)"

fun py_truthy :: "pyval \<Rightarrow> bool" where
  "py_truthy PNone = False"
| "py_truthy (PBool b) = b"
| "py_truthy (PInt n) = (n \<noteq> 0)"
| "py_truthy (PStr s) = (s \<noteq> [])"
| "py_truthy (PObj t s) = t"

definition py_or :: "pyval \<Rightarrow> pyval \<Rightarrow> pyval" where
  \<comment> \<open>\<open>a or b\<close>: the first operand when it is true, else the second\<close>
  "py_or a b = (if py_truthy a then a else b)"

fun isinstance_int :: "pyval \<Rightarrow> bool" where
  \<comment> \<open>\<open>isinstance(v, int)\<close>: \<open>bool\<close> is a subclass of \<open>int\<close>\<close>
  "isinstance_int (PInt n) = True"
| "isinstance_int (PBool b) = True"
| "isinstance_int v = False"

definition digit_char :: "nat \<Rightarrow> char" where
  "digit_char d = ''0123456789'' ! d"

fun show_nat :: "nat \<Rightarrow> string" where
  "show_nat n = (if n < 10 then [digit_char n] else show_nat (n div 10) @ [digit_char (n mod 10)])"

declare show_nat.simps [simp del]

definition show_int :: "int \<Rightarrow> string" where
  "show_int i = (if i < 0 then CHR ''-'' # show_nat (nat (- i)) else show_nat (nat i))"

fun py_str :: "pyval \<Rightarrow> string" where
  \<comment> \<open>\<open>str(v)\<close>, which is also what an f-string field \<open>{v}\<close> renders\<close>
  "py_str PNone = ''None''"
| "py_str (PBool b) = (if b then ''True'' else ''False'')"
| "py_str (PInt n) = show_int n"
| "py_str (PStr s) = s"
| "py_str (PObj t s) = s"

subsection \<open>The response models\<close>

record VideoFormat =
  format_id :: string
  quality :: string
  ext :: string
  filesize :: "int option"

record VideoInfoResponse =
  title :: string
  formats :: "VideoFormat list"

text \<open>
  The constructor of a pydantic model validates its fields. A value of the declared
  type is taken as it is. A value of another type is coerced or rejected by pydantic's
  own conversion table (a numeric string, an integral float or a boolean may become an
  integer), which is the library's and not the repository's: the table is a parameter
  of the model, \<open>Some\<close> for the coerced value and \<open>None\<close> for a rejection, so that
  every theorem below holds whatever pydantic converts.
\<close>

record pydantic =
  coerce_str :: "pyval \<Rightarrow> string option"
  coerce_int :: "pyval \<Rightarrow> int option"

definition validate_str :: "pydantic \<Rightarrow> pyval \<Rightarrow> py_error + string" where
  \<comment> \<open>a field declared \<open>str\<close>\<close>
  "validate_str pd v =
     (case v of
        PStr s \<Rightarrow> Inr s
      | _ \<Rightarrow> (case coerce_str pd v of Some s \<Rightarrow> Inr s | None \<Rightarrow> Inl ValidationError))"

definition validate_optional_int :: "pydantic \<Rightarrow> pyval \<Rightarrow> py_error + int option" where
  \<comment> \<open>a field declared \<open>Optional[int]\<close>\<close>
  "validate_optional_int pd v =
     (case v of
        PNone \<Rightarrow> Inr None
      | PInt n \<Rightarrow> Inr (Some n)
      | _ \<Rightarrow> (case coerce_int pd v of Some n \<Rightarrow> Inr (Some n) | None \<Rightarrow> Inl ValidationError))"

text \<open>What a handler does: raise an HTTPException, fail with an exception nothing
  handles (the framework answers 500), or return its response (status 200).\<close>

datatype 'a http_result =
  HTTPException nat string
| Unhandled py_error
| Response200 'a

subsection \<open>The /info handler\<close>

text \<open>
  The extractor's answer in metadata-only mode: it raises (\<open>Inl\<close>, with the text
  \<open>str(e)\<close> of the exception) or returns the info dictionary. Of that dictionary the
  handler reads two keys: \<open>title\<close> (any value, or missing) and \<open>formats\<close> (a list of
  format dictionaries, or missing).
\<close>

record info_dict =
  info_title :: "pyval option"
  info_formats :: "pydict list option"

definition info_get_formats :: "info_dict \<Rightarrow> pydict list" where
  \<comment> \<open>\<open>info.get("formats", [])\<close>\<close>
  "info_get_formats info = (case info_formats info of None \<Rightarrow> [] | Some fs \<Rightarrow> fs)"

definition info_get_title :: "info_dict \<Rightarrow> pyval" where
  \<comment> \<open>\<open>info.get("title", "video_sin_titulo")\<close>: the default stands in for a missing key only\<close>
  "info_get_title info = (case info_title info of None \<Rightarrow> PStr ''video_sin_titulo'' | Some t \<Rightarrow> t)"

definition has_video_and_audio :: "pydict \<Rightarrow> bool" where
  \<comment> \<open>the test of line 67\<close>
  "has_video_and_audio f =
     (dict_get f ''vcodec'' \<noteq> PStr ''none'' \<and> dict_get f ''acodec'' \<noteq> PStr ''none'')"

definition quality_label :: "pydict \<Rightarrow> pyval" where
  \<comment> \<open>lines 68 to 70\<close>
  "quality_label f =
     (let q = py_or (dict_get f ''format_note'') (dict_get f ''height'')
      in if isinstance_int q then PStr (py_str q @ ''p'') else q)"

definition make_video_format :: "pydantic \<Rightarrow> pydict \<Rightarrow> py_error + VideoFormat" where
  \<comment> \<open>lines 73 to 78: the arguments are evaluated in order, then validated\<close>
  "make_video_format pd f =
     (case dict_item f ''format_id'' of
        Inl e \<Rightarrow> Inl e
      | Inr fid \<Rightarrow>
          (let q = py_str (quality_label f) in
           case dict_item f ''ext'' of
             Inl e \<Rightarrow> Inl e
           | Inr ex \<Rightarrow>
               (let fs = dict_get f ''filesize'' in
                case validate_str pd fid of
                  Inl e \<Rightarrow> Inl e
                | Inr fid' \<Rightarrow>
                    (case validate_str pd ex of
                       Inl e \<Rightarrow> Inl e
                     | Inr ex' \<Rightarrow>
                         (case validate_optional_int pd fs of
                            Inl e \<Rightarrow> Inl e
                          | Inr fs' \<Rightarrow>
                              Inr \<lparr>format_id = fid', quality = q, ext = ex', filesize = fs'\<rparr>)))))"

fun collect_formats ::
  "pydantic \<Rightarrow> pydict list \<Rightarrow> VideoFormat list \<Rightarrow> py_error + VideoFormat list" where
  \<comment> \<open>the loop of lines 65 to 79, with the list \<open>video_formats\<close> built so far\<close>
  "collect_formats pd [] video_formats = Inr video_formats"
| "collect_formats pd (f # fs) video_formats =
     (if has_video_and_audio f then
        (case make_video_format pd f of
           Inl e \<Rightarrow> Inl e
         | Inr v \<Rightarrow> collect_formats pd fs (video_formats @ [v]))
      else collect_formats pd fs video_formats)"

definition sanitize_title :: "pyval \<Rightarrow> py_error + string" where
  \<comment> \<open>\<open>sanitize_filename\<close> called on a value: \<open>re.sub\<close> raises TypeError unless it is a string\<close>
  "sanitize_title v = (case v of PStr s \<Rightarrow> Inr (sanitize_filename s) | _ \<Rightarrow> Inl TypeError)"

definition get_video_info ::
  "pydantic \<Rightarrow> (string \<Rightarrow> string + info_dict) \<Rightarrow> string \<Rightarrow> VideoInfoResponse http_result" where
  \<comment> \<open>\<open>pd\<close> is pydantic's conversion table, \<open>extract_info\<close> the extractor\<close>
  "get_video_info pd extract_info url =
     (case extract_info url of
        Inl e \<Rightarrow> HTTPException 400 (''Error de yt-dlp al obtener info: '' @ e)
      | Inr info \<Rightarrow>
          (case collect_formats pd (info_get_formats info) [] of
             Inl err \<Rightarrow> Unhandled err
           | Inr video_formats \<Rightarrow>
               if video_formats = [] then
                 HTTPException 404
                   ''No se encontraron formatos de video compatibles (video+audio).''
               else
                 (case sanitize_title (info_get_title info) of
                    Inl err \<Rightarrow> Unhandled err
                  | Inr sanitized_title \<Rightarrow>
                      Response200 \<lparr>title = sanitized_title, formats = video_formats\<rparr>)))"

subsection \<open>The file system and the /download handler\<close>

text \<open>
  The handler's effects are on the file system. The state holds the directories that
  exist, the files by path with their content, and the log of the calls made so far,
  in order: the log is what the claims about "once" and "before" are stated on.
\<close>

datatype event =
  Mkdtemp string
| Extract string string string
| Rmtree string
| Respond nat

record world =
  dirs :: "string set"
  files :: "string \<rightharpoonup> string"
  trace :: "event list"

definition os_path_join :: "string \<Rightarrow> string \<Rightarrow> string" where
  \<comment> \<open>\<open>posixpath.join(a, b)\<close>\<close>
  "os_path_join a b =
     (if b \<noteq> [] \<and> hd b = CHR ''/'' then b
      else if a = [] \<or> last a = CHR ''/'' then a @ b
      else a @ ''/'' @ b)"

definition os_path_basename :: "string \<Rightarrow> string" where
  \<comment> \<open>\<open>posixpath.basename(p)\<close>: what follows the last slash\<close>
  "os_path_basename p = rev (takeWhile (\<lambda>c. c \<noteq> CHR ''/'') (rev p))"

definition under :: "string \<Rightarrow> string \<Rightarrow> bool" where
  \<comment> \<open>the path \<open>p\<close> lies inside the directory \<open>d\<close>\<close>
  "under d p = prefix (d @ ''/'') p"

definition mkdtemp :: "string \<Rightarrow> world \<Rightarrow> world" where
  \<comment> \<open>\<open>tempfile.mkdtemp()\<close> returning the name \<open>d\<close>: the directory now exists\<close>
  "mkdtemp d w = w\<lparr>dirs := insert d (dirs w), trace := trace w @ [Mkdtemp d]\<rparr>"

definition rmtree :: "string \<Rightarrow> world \<Rightarrow> py_error + world" where
  \<comment> \<open>\<open>shutil.rmtree(d)\<close>: the directory and all below it are gone; it raises when
      there is no such directory\<close>
  "rmtree d w =
     (if d \<in> dirs w then
        Inr (w\<lparr>dirs := {x \<in> dirs w. x \<noteq> d \<and> \<not> under d x},
               files := (\<lambda>p. if under d p then None else files w p),
               trace := trace w @ [Rmtree d]\<rparr>)
      else Inl FileNotFoundError)"

text \<open>
  The extractor's answer in download mode, for the \<open>try\<close> block of lines 109 to 114 as
  a whole: the files it left on disk (path and content, also when it fails), and either
  the text \<open>str(e)\<close> of the exception raised in the block or the path that
  \<open>prepare_filename\<close> computed from the filename template.
\<close>

record download_outcome =
  written :: "(string \<times> string) list"
  prepared :: "string + string"

definition run_extractor :: "string \<Rightarrow> string \<Rightarrow> string \<Rightarrow> download_outcome \<Rightarrow> world \<Rightarrow> world" where
  "run_extractor url fmt outtmpl out w =
     w\<lparr>files := files w ++ map_of (written out),
       trace := trace w @ [Extract url fmt outtmpl]\<rparr>"

record FileResponse =
  path :: string
  media_type :: string
  filename :: string

datatype task = Task_rmtree string

record download_result =
  outcome :: "FileResponse http_result"
  background_tasks :: "task list"
  world_after :: world

definition ydl_outtmpl :: "string \<Rightarrow> string" where
  \<comment> \<open>the \<open>outtmpl\<close> option of line 102\<close>
  "ydl_outtmpl temp_dir = os_path_join temp_dir ''%(title)s.%(ext)s''"

definition download_video ::
  "(string \<Rightarrow> string \<Rightarrow> string \<Rightarrow> download_outcome) \<Rightarrow> string \<Rightarrow> string \<Rightarrow> string \<Rightarrow> world
     \<Rightarrow> download_result" where
  \<comment> \<open>\<open>ydl\<close> is the extractor, \<open>temp_dir\<close> the name that \<open>tempfile.mkdtemp()\<close> returns\<close>
  "download_video ydl temp_dir url fmt w =
     (let w1 = mkdtemp temp_dir w;
          outtmpl = ydl_outtmpl temp_dir;
          out = ydl url fmt outtmpl;
          w2 = run_extractor url fmt outtmpl out w1
      in case prepared out of
           Inl e \<Rightarrow>
             (case rmtree temp_dir w2 of
                Inl err \<Rightarrow>
                  \<lparr>outcome = Unhandled err, background_tasks = [], world_after = w2\<rparr>
              | Inr w3 \<Rightarrow>
                  \<lparr>outcome = HTTPException 500 (''Error de yt-dlp al descargar: '' @ e),
                   background_tasks = [], world_after = w3\<rparr>)
         | Inr original_filename \<Rightarrow>
             (let sanitized_basename = sanitize_filename (os_path_basename original_filename)
              in \<lparr>outcome = Response200
                     \<lparr>path = original_filename,
                      media_type = ''application/octet-stream'',
                      filename = sanitized_basename\<rparr>,
                   background_tasks = [Task_rmtree temp_dir],
                   world_after = w2\<rparr>))"

subsection \<open>The framework around the /download handler\<close>

text \<open>
  The handler returns its result to the web framework (FastAPI on Starlette), which
  sends it and then runs the scheduled tasks. The framework is a library, not part of
  the source. The three definitions below follow what the specification says of it,
  but for one case where the library does otherwise: a file response for a path with no
  file raises while it is being sent, before the scheduled tasks are reached, so those
  tasks never run (section 7 of the specification says they still do).
  What the client receives is the file's bytes with a content type and a suggested
  filename (status 200), an error status with its detail, or the framework's answer to
  a failure nothing handled (status 500).
  The model is sequential: a request that a client disconnect, a timeout or a
  cancellation cuts short is not in it.
\<close>

datatype sent =
  Sent_file string string string
| Sent_error nat string
| Sent_server_error

definition respond :: "FileResponse http_result \<Rightarrow> world \<Rightarrow> sent \<times> world" where
  \<comment> \<open>Modelled from the spec: the web framework that sends the handler's result is not
      in the repository. A file response streams the bytes of the file at its path; when
      there is no such file the streaming step fails and the client gets a server error
      (spec 4.2). An HTTPException is sent as its status and detail.\<close>
  "respond r w =
     (case r of
        Response200 fr \<Rightarrow>
          (case files w (path fr) of
             Some bytes \<Rightarrow>
               (Sent_file bytes (media_type fr) (filename fr),
                w\<lparr>trace := trace w @ [Respond 200]\<rparr>)
           | None \<Rightarrow> (Sent_server_error, w\<lparr>trace := trace w @ [Respond 500]\<rparr>))
      | HTTPException st detail \<Rightarrow> (Sent_error st detail, w\<lparr>trace := trace w @ [Respond st]\<rparr>)
      | Unhandled err \<Rightarrow> (Sent_server_error, w\<lparr>trace := trace w @ [Respond 500]\<rparr>))"

fun run_task :: "task \<Rightarrow> world \<Rightarrow> world" where
  \<comment> \<open>Modelled from the spec: the framework's runner of scheduled tasks is not in the
      repository. It calls the scheduled function (spec 4.2); a task that raises leaves
      the state as it was.\<close>
  "run_task (Task_rmtree d) w = (case rmtree d w of Inl err \<Rightarrow> w | Inr w' \<Rightarrow> w')"

definition serve_download ::
  "(string \<Rightarrow> string \<Rightarrow> string \<Rightarrow> download_outcome) \<Rightarrow> string \<Rightarrow> string \<Rightarrow> string \<Rightarrow> world
     \<Rightarrow> sent \<times> world" where
  \<comment> \<open>Modelled from the spec: one /download request as the framework runs it. The
      handler runs, its result is sent, and the background tasks it scheduled run, in
      order, only after the file response has been sent (spec 4.2). When sending the file
      response fails, and when the handler raised, the tasks are not run: this is the
      library's behaviour, where spec 7 has the cleanup still run.\<close>
  "serve_download ydl temp_dir url fmt w =
     (let r = download_video ydl temp_dir url fmt w;
          (s, w1) = respond (outcome r) (world_after r)
      in (s, case s of
               Sent_file bytes content_type name \<Rightarrow> fold run_task (background_tasks r) w1
             | _ \<Rightarrow> w1))"

subsection \<open>Concrete requests\<close>

text \<open>The first scenario of the specification: one format with video and audio, no
  note, height 720, and the title \<open>My:Video\<close>.\<close>

definition scenario_format :: pydict where
  "scenario_format =
     [''vcodec'' \<mapsto> PStr ''avc1'', ''acodec'' \<mapsto> PStr ''mp4a'', ''height'' \<mapsto> PInt 720,
      ''ext'' \<mapsto> PStr ''mp4'', ''format_id'' \<mapsto> PStr ''22'']"

definition scenario_info :: info_dict where
  "scenario_info =
     \<lparr>info_title = Some (PStr ''My:Video''), info_formats = Some [scenario_format]\<rparr>"

definition scenario_url :: string where
  "scenario_url = ''https://example.com/watch?v=abc''"

text \<open>A video-only and an audio-only format, a format with a note, a format with an
  empty note, and a format with neither note nor height.\<close>

definition video_only_format :: pydict where
  "video_only_format =
     [''vcodec'' \<mapsto> PStr ''vp9'', ''acodec'' \<mapsto> PStr ''none'', ''height'' \<mapsto> PInt 1080,
      ''ext'' \<mapsto> PStr ''webm'', ''format_id'' \<mapsto> PStr ''248'']"

definition audio_only_format :: pydict where
  "audio_only_format =
     [''vcodec'' \<mapsto> PStr ''none'', ''acodec'' \<mapsto> PStr ''opus'',
      ''ext'' \<mapsto> PStr ''webm'', ''format_id'' \<mapsto> PStr ''251'']"

definition noted_format :: pydict where
  "noted_format =
     [''vcodec'' \<mapsto> PStr ''avc1'', ''acodec'' \<mapsto> PStr ''mp4a'', ''format_note'' \<mapsto> PStr ''medium'',
      ''height'' \<mapsto> PInt 360, ''ext'' \<mapsto> PStr ''mp4'', ''format_id'' \<mapsto> PStr ''18'',
      ''filesize'' \<mapsto> PInt 1048576]"

text \<open>A sample conversion table for the concrete requests: a string of digits and a
  boolean become integers, and everything else of the wrong type is rejected.\<close>

fun digits_value :: "string \<Rightarrow> nat \<Rightarrow> nat option" where
  "digits_value [] acc = Some acc"
| "digits_value (c # cs) acc =
     (if 48 \<le> (of_char c :: nat) \<and> (of_char c :: nat) \<le> 57
      then digits_value cs (10 * acc + (of_char c - 48))
      else None)"

definition sample_pydantic :: pydantic where
  "sample_pydantic =
     \<lparr>coerce_str = (\<lambda>v. None),
      coerce_int = (\<lambda>v. case v of
                        PBool b \<Rightarrow> Some (if b then 1 else 0)
                      | PStr s \<Rightarrow> (if s = [] then None else map_option int (digits_value s 0))
                      | _ \<Rightarrow> None)\<rparr>"

definition string_size_format :: pydict where
  \<comment> \<open>a format whose file size is reported as a numeric string\<close>
  "string_size_format =
     [''vcodec'' \<mapsto> PStr ''avc1'', ''acodec'' \<mapsto> PStr ''mp4a'', ''height'' \<mapsto> PInt 480,
      ''ext'' \<mapsto> PStr ''mp4'', ''format_id'' \<mapsto> PStr ''135'', ''filesize'' \<mapsto> PStr ''2048'']"

definition int_note_format :: pydict where
  \<comment> \<open>a format whose note is an integer\<close>
  "int_note_format =
     [''vcodec'' \<mapsto> PStr ''avc1'', ''acodec'' \<mapsto> PStr ''mp4a'', ''format_note'' \<mapsto> PInt 1080,
      ''ext'' \<mapsto> PStr ''mp4'', ''format_id'' \<mapsto> PStr ''137'']"

definition empty_note_format :: pydict where
  \<comment> \<open>the scenario's format with a note that is there and is the empty string\<close>
  "empty_note_format = scenario_format(''format_note'' \<mapsto> PStr [])"

definition bare_format :: pydict where
  "bare_format =
     [''vcodec'' \<mapsto> PStr ''avc1'', ''acodec'' \<mapsto> PStr ''mp4a'',
      ''ext'' \<mapsto> PStr ''mp4'', ''format_id'' \<mapsto> PStr ''0'']"

definition mixed_info :: info_dict where
  "mixed_info =
     \<lparr>info_title = Some (PStr ''clip''),
      info_formats =
        Some [video_only_format, scenario_format, audio_only_format, string_size_format]\<rparr>"

definition split_streams_info :: info_dict where
  "split_streams_info =
     \<lparr>info_title = Some (PStr ''clip''),
      info_formats = Some [video_only_format, audio_only_format]\<rparr>"

text \<open>A /download request on an empty file system: an extractor that fails after
  leaving a partial file, and one that produces the file its template names.\<close>

definition empty_world :: world where
  "empty_world = \<lparr>dirs = {}, files = Map.empty, trace = []\<rparr>"

definition failing_ydl :: "string \<Rightarrow> string \<Rightarrow> string \<Rightarrow> download_outcome" where
  "failing_ydl url fmt outtmpl =
     \<lparr>written = [(''/tmp/tmpk3x/My:Video.mp4.part'', ''ab'')],
      prepared = Inl ''ERROR: Requested format is not available''\<rparr>"

definition working_ydl :: "string \<Rightarrow> string \<Rightarrow> string \<Rightarrow> download_outcome" where
  "working_ydl url fmt outtmpl =
     \<lparr>written = [(''/tmp/tmpk3x/My:Video.mp4'', ''abc'')],
      prepared = Inr ''/tmp/tmpk3x/My:Video.mp4''\<rparr>"

text \<open>An extractor that succeeds and leaves its file under another name than the one
  the filename template gives: the case of sections 4.2 and 7 of the specification.\<close>

definition misnaming_ydl :: "string \<Rightarrow> string \<Rightarrow> string \<Rightarrow> download_outcome" where
  "misnaming_ydl url fmt outtmpl =
     \<lparr>written = [(''/tmp/tmpk3x/My:Video.mkv'', ''abc'')],
      prepared = Inr ''/tmp/tmpk3x/My:Video.webm''\<rparr>"

section \<open>The filename sanitizer\<close>

lemma re_sub_class_empty: "re_sub_class cls [] s = filter (\<lambda>c. c \<notin> set cls) s"
  by (induction s) simp_all

lemma sanitize_filename_filter:
  "sanitize_filename s = filter (\<lambda>c. c \<notin> set invalid_chars) s"
  by (simp add: sanitize_filename_def re_sub_class_empty)

lemma set_invalid_chars:
  "set invalid_chars =
     {CHR 0x5C, CHR ''/'', CHR ''*'', CHR ''?'', CHR '':'', CHR 0x22, CHR ''<'', CHR ''>'', CHR ''|''}"
  by (simp add: invalid_chars_def)

text \<open>
  Claim C2. For every string \<open>s\<close>, \<open>sanitize_filename s\<close> is \<open>s\<close> with every
  occurrence of the nine characters backslash, slash, star, question mark, colon, double
  quote, less-than, greater-than and bar removed, and every other character kept, in
  its order. The function is a total function of its argument alone.
\<close>

theorem sanitize_filename_removes_exactly:
  "sanitize_filename s =
     filter (\<lambda>c. c \<notin> {CHR 0x5C, CHR ''/'', CHR ''*'', CHR ''?'', CHR '':'', CHR 0x22,
                          CHR ''<'', CHR ''>'', CHR ''|''}) s"
  by (simp only: sanitize_filename_filter set_invalid_chars)

theorem sanitize_filename_removes_exactly_witness:
  "sanitize_filename ''a/b:c*d?.mp4'' = ''abcd.mp4''"
  by (simp add: sanitize_filename_removes_exactly)

text \<open>
  Claim C8. The sanitizer is idempotent: sanitizing a sanitized string changes nothing.
\<close>

theorem sanitize_filename_idempotent:
  "sanitize_filename (sanitize_filename s) = sanitize_filename s"
  by (simp add: sanitize_filename_filter)

theorem sanitize_filename_idempotent_witness:
  "sanitize_filename (sanitize_filename ''My:Video'') = sanitize_filename ''My:Video''"
  by (rule sanitize_filename_idempotent)

section \<open>The /info handler\<close>

lemmas info_eval =
  get_video_info_def info_get_formats_def info_get_title_def has_video_and_audio_def
  make_video_format_def validate_str_def validate_optional_int_def
  quality_label_def dict_get_def dict_item_def py_or_def
  sanitize_title_def sanitize_filename_def invalid_chars_def
  show_int_def show_nat.simps digit_char_def sample_pydantic_def

text \<open>The loop appends, in the extractor's order, one entry for each format that
  passes the test, and nothing else.\<close>

lemma collect_formats_Inr:
  "collect_formats pd fs acc = Inr vs \<Longrightarrow>
     \<exists>new. vs = acc @ new \<and>
           map (make_video_format pd) (filter has_video_and_audio fs) = map Inr new"
proof (induction fs arbitrary: acc)
  case Nil
  then show ?case by simp
next
  case (Cons f fs)
  show ?case
  proof (cases "has_video_and_audio f")
    case False
    with Cons show ?thesis by simp
  next
    case True
    with Cons.prems obtain v where v: "make_video_format pd f = Inr v"
      and rest: "collect_formats pd fs (acc @ [v]) = Inr vs"
      by (auto split: sum.splits)
    from Cons.IH [OF rest] obtain new where
      "vs = (acc @ [v]) @ new"
      "map (make_video_format pd) (filter has_video_and_audio fs) = map Inr new"
      by blast
    with True v show ?thesis by simp
  qed
qed

lemma collect_formats_none_kept:
  "filter has_video_and_audio fs = [] \<Longrightarrow> collect_formats pd fs acc = Inr acc"
  by (induction fs arbitrary: acc) (auto split: if_splits)

lemma get_video_info_200D:
  assumes "get_video_info pd extract_info url = Response200 r"
  obtains info where "extract_info url = Inr info"
    and "collect_formats pd (info_get_formats info) [] = Inr (formats r)"
    and "formats r \<noteq> []"
    and "sanitize_title (info_get_title info) = Inr (title r)"
  using assms unfolding get_video_info_def
  by (auto split: sum.splits if_splits)

lemma make_video_format_quality:
  "make_video_format pd f = Inr v \<Longrightarrow> quality v = py_str (quality_label f)"
  by (auto simp: make_video_format_def Let_def split: sum.splits)

text \<open>
  Claim C1. Whenever the /info handler answers 200, every entry of the returned
  formats list was built from a format record of the extractor whose video codec and
  audio codec are both different from \<open>"none"\<close>: no video-only and no audio-only record
  gives an entry. This holds whatever pydantic converts.
\<close>

theorem info_formats_have_video_and_audio:
  assumes "get_video_info pd extract_info url = Response200 r"
  shows "\<exists>info. extract_info url = Inr info \<and>
           (\<forall>v \<in> set (formats r). \<exists>f \<in> set (info_get_formats info).
              dict_get f ''vcodec'' \<noteq> PStr ''none'' \<and> dict_get f ''acodec'' \<noteq> PStr ''none'' \<and>
              make_video_format pd f = Inr v)"
proof -
  from assms obtain info where ex: "extract_info url = Inr info"
    and coll: "collect_formats pd (info_get_formats info) [] = Inr (formats r)"
    by (rule get_video_info_200D)
  from collect_formats_Inr [OF coll]
  have m: "map (make_video_format pd) (filter has_video_and_audio (info_get_formats info))
             = map Inr (formats r)"
    by simp
  have "\<exists>f \<in> set (info_get_formats info).
          dict_get f ''vcodec'' \<noteq> PStr ''none'' \<and> dict_get f ''acodec'' \<noteq> PStr ''none'' \<and>
          make_video_format pd f = Inr v"
    if "v \<in> set (formats r)" for v
  proof -
    from that have "Inr v \<in> set (map Inr (formats r) :: (py_error + VideoFormat) list)" by simp
    with m have "Inr v \<in> make_video_format pd ` set (filter has_video_and_audio (info_get_formats info))"
      by (metis set_map)
    then obtain f where "f \<in> set (info_get_formats info)" "has_video_and_audio f"
      "make_video_format pd f = Inr v"
      by auto
    then show ?thesis by (auto simp: has_video_and_audio_def)
  qed
  with ex show ?thesis by blast
qed

theorem info_formats_have_video_and_audio_witness:
  "get_video_info sample_pydantic (\<lambda>u. Inr mixed_info) scenario_url =
     Response200 \<lparr>title = ''clip'',
       formats = [\<lparr>format_id = ''22'', quality = ''720p'', ext = ''mp4'', filesize = None\<rparr>,
                  \<lparr>format_id = ''135'', quality = ''480p'', ext = ''mp4'', filesize = Some 2048\<rparr>]\<rparr> \<and>
   (\<exists>f \<in> set (info_get_formats mixed_info).
      dict_get f ''vcodec'' \<noteq> PStr ''none'' \<and> dict_get f ''acodec'' \<noteq> PStr ''none'' \<and>
      make_video_format sample_pydantic f =
        Inr \<lparr>format_id = ''22'', quality = ''720p'', ext = ''mp4'', filesize = None\<rparr>) \<and>
   (\<exists>f \<in> set (info_get_formats mixed_info).
      dict_get f ''vcodec'' \<noteq> PStr ''none'' \<and> dict_get f ''acodec'' \<noteq> PStr ''none'' \<and>
      make_video_format sample_pydantic f =
        Inr \<lparr>format_id = ''135'', quality = ''480p'', ext = ''mp4'', filesize = Some 2048\<rparr>)"
proof -
  have r: "get_video_info sample_pydantic (\<lambda>u. Inr mixed_info) scenario_url =
     Response200 \<lparr>title = ''clip'',
       formats = [\<lparr>format_id = ''22'', quality = ''720p'', ext = ''mp4'', filesize = None\<rparr>,
                  \<lparr>format_id = ''135'', quality = ''480p'', ext = ''mp4'', filesize = Some 2048\<rparr>]\<rparr>"
    by (simp add: info_eval mixed_info_def scenario_format_def video_only_format_def
        audio_only_format_def string_size_format_def)
  from info_formats_have_video_and_audio [OF r] r show ?thesis by simp
qed

text \<open>
  Claim C3, as the code has it. For every entry the handler builds, the quality string
  comes from the format's note when the note is true in Python's sense (not missing,
  not \<open>None\<close>, not empty, not zero), and from the height value otherwise. The chosen
  value is rendered by \<open>str()\<close>, followed by \<open>p\<close> when it is an \<open>int\<close> (a \<open>bool\<close>
  is one). So a non-empty string note gives the note itself; a missing, \<open>None\<close> or empty
  note with the integer height \<open>n\<close> gives \<open>n\<close> followed by \<open>p\<close>; and with no integer
  height the result is \<open>str()\<close> of the height value (\<open>None\<close> for a missing one). The
  four cases on the note and the height cover every entry. The scenario of the
  specification answers 200 with the title \<open>MyVideo\<close> and the one entry of format id 22,
  quality \<open>720p\<close>, extension mp4 and no file size.
\<close>

theorem info_quality_derivation:
  assumes "make_video_format pd f = Inr v"
  shows "(\<forall>s. dict_get f ''format_note'' = PStr s \<and> s \<noteq> [] \<longrightarrow> quality v = s) \<and>
         (py_truthy (dict_get f ''format_note'') \<and> \<not> isinstance_int (dict_get f ''format_note'') \<longrightarrow>
            quality v = py_str (dict_get f ''format_note'')) \<and>
         (py_truthy (dict_get f ''format_note'') \<and> isinstance_int (dict_get f ''format_note'') \<longrightarrow>
            quality v = py_str (dict_get f ''format_note'') @ ''p'') \<and>
         (\<forall>n. \<not> py_truthy (dict_get f ''format_note'') \<and> dict_get f ''height'' = PInt n \<longrightarrow>
            quality v = show_int n @ ''p'') \<and>
         (\<not> py_truthy (dict_get f ''format_note'') \<and> isinstance_int (dict_get f ''height'') \<longrightarrow>
            quality v = py_str (dict_get f ''height'') @ ''p'') \<and>
         (\<not> py_truthy (dict_get f ''format_note'') \<and> \<not> isinstance_int (dict_get f ''height'') \<longrightarrow>
            quality v = py_str (dict_get f ''height'')) \<and>
         get_video_info pd (\<lambda>u. Inr scenario_info) scenario_url =
           Response200 \<lparr>title = ''MyVideo'',
             formats = [\<lparr>format_id = ''22'', quality = ''720p'', ext = ''mp4'', filesize = None\<rparr>]\<rparr>"
proof -
  have q: "quality v = py_str (quality_label f)"
    using assms by (rule make_video_format_quality)
  have c1: "quality v = s" if "dict_get f ''format_note'' = PStr s \<and> s \<noteq> []" for s
    using that by (simp add: q quality_label_def py_or_def)
  have c2: "quality v = py_str (dict_get f ''format_note'')"
    if "py_truthy (dict_get f ''format_note'') \<and> \<not> isinstance_int (dict_get f ''format_note'')"
    using that by (simp add: q quality_label_def py_or_def)
  have c3: "quality v = py_str (dict_get f ''format_note'') @ ''p''"
    if "py_truthy (dict_get f ''format_note'') \<and> isinstance_int (dict_get f ''format_note'')"
    using that by (simp add: q quality_label_def py_or_def)
  have c4: "quality v = show_int n @ ''p''"
    if "\<not> py_truthy (dict_get f ''format_note'') \<and> dict_get f ''height'' = PInt n" for n
    using that by (simp add: q quality_label_def py_or_def)
  have c5: "quality v = py_str (dict_get f ''height'') @ ''p''"
    if "\<not> py_truthy (dict_get f ''format_note'') \<and> isinstance_int (dict_get f ''height'')"
    using that by (simp add: q quality_label_def py_or_def)
  have c6: "quality v = py_str (dict_get f ''height'')"
    if "\<not> py_truthy (dict_get f ''format_note'') \<and> \<not> isinstance_int (dict_get f ''height'')"
    using that by (simp add: q quality_label_def py_or_def)
  have sc: "get_video_info pd (\<lambda>u. Inr scenario_info) scenario_url =
           Response200 \<lparr>title = ''MyVideo'',
             formats = [\<lparr>format_id = ''22'', quality = ''720p'', ext = ''mp4'', filesize = None\<rparr>]\<rparr>"
    by (simp add: get_video_info_def info_get_formats_def info_get_title_def
        has_video_and_audio_def make_video_format_def validate_str_def
        validate_optional_int_def quality_label_def dict_get_def dict_item_def py_or_def
        sanitize_title_def sanitize_filename_def invalid_chars_def
        show_int_def show_nat.simps digit_char_def scenario_info_def scenario_format_def)
  from c1 c2 c3 c4 c5 c6 sc show ?thesis by blast
qed

theorem info_quality_derivation_witness:
  "make_video_format sample_pydantic noted_format =
     Inr \<lparr>format_id = ''18'', quality = ''medium'', ext = ''mp4'', filesize = Some 1048576\<rparr> \<and>
   make_video_format sample_pydantic int_note_format =
     Inr \<lparr>format_id = ''137'', quality = ''1080p'', ext = ''mp4'', filesize = None\<rparr> \<and>
   make_video_format sample_pydantic scenario_format =
     Inr \<lparr>format_id = ''22'', quality = ''720p'', ext = ''mp4'', filesize = None\<rparr> \<and>
   make_video_format sample_pydantic bare_format =
     Inr \<lparr>format_id = ''0'', quality = ''None'', ext = ''mp4'', filesize = None\<rparr> \<and>
   get_video_info sample_pydantic (\<lambda>u. Inr scenario_info) scenario_url =
     Response200 \<lparr>title = ''MyVideo'',
       formats = [\<lparr>format_id = ''22'', quality = ''720p'', ext = ''mp4'', filesize = None\<rparr>]\<rparr>"
proof -
  let ?pd = sample_pydantic
  note build = make_video_format_def validate_str_def validate_optional_int_def
    dict_item_def dict_get_def
  obtain v1 where v1: "make_video_format ?pd noted_format = Inr v1"
    and f1: "format_id v1 = ''18''" "ext v1 = ''mp4''" "filesize v1 = Some 1048576"
    by (simp add: build noted_format_def)
  obtain v2 where v2: "make_video_format ?pd int_note_format = Inr v2"
    and f2: "format_id v2 = ''137''" "ext v2 = ''mp4''" "filesize v2 = None"
    by (simp add: build int_note_format_def)
  obtain v3 where v3: "make_video_format ?pd scenario_format = Inr v3"
    and f3: "format_id v3 = ''22''" "ext v3 = ''mp4''" "filesize v3 = None"
    by (simp add: build scenario_format_def)
  obtain v4 where v4: "make_video_format ?pd bare_format = Inr v4"
    and f4: "format_id v4 = ''0''" "ext v4 = ''mp4''" "filesize v4 = None"
    by (simp add: build bare_format_def)
  have n1: "dict_get noted_format ''format_note'' = PStr ''medium'' \<and> ''medium'' \<noteq> []"
    by (simp add: dict_get_def noted_format_def)
  have n1': "py_truthy (dict_get noted_format ''format_note'') \<and>
             \<not> isinstance_int (dict_get noted_format ''format_note'')"
    by (simp add: dict_get_def noted_format_def)
  have n2: "py_truthy (dict_get int_note_format ''format_note'') \<and>
            isinstance_int (dict_get int_note_format ''format_note'')"
    by (simp add: dict_get_def int_note_format_def)
  have n3: "\<not> py_truthy (dict_get scenario_format ''format_note'') \<and>
            dict_get scenario_format ''height'' = PInt 720"
    by (simp add: dict_get_def scenario_format_def)
  have n3': "\<not> py_truthy (dict_get scenario_format ''format_note'') \<and>
             isinstance_int (dict_get scenario_format ''height'')"
    by (simp add: dict_get_def scenario_format_def)
  have n4: "\<not> py_truthy (dict_get bare_format ''format_note'') \<and>
            \<not> isinstance_int (dict_get bare_format ''height'')"
    by (simp add: dict_get_def bare_format_def)
  have s1080: "py_str (dict_get int_note_format ''format_note'') @ ''p'' = ''1080p''"
    by (simp add: dict_get_def int_note_format_def show_int_def show_nat.simps digit_char_def)
  have s720: "show_int 720 @ ''p'' = ''720p''"
    by (simp add: show_int_def show_nat.simps digit_char_def)
  have s720': "py_str (dict_get scenario_format ''height'') @ ''p'' = ''720p''"
    by (simp add: dict_get_def scenario_format_def show_int_def show_nat.simps digit_char_def)
  have sNone: "py_str (dict_get bare_format ''height'') = ''None''"
    by (simp add: dict_get_def bare_format_def)
  have sMedium: "py_str (dict_get noted_format ''format_note'') = ''medium''"
    by (simp add: dict_get_def noted_format_def)
  note t1 = info_quality_derivation [OF v1]
  note t2 = info_quality_derivation [OF v2]
  note t3 = info_quality_derivation [OF v3]
  note t4 = info_quality_derivation [OF v4]
  from t1 n1 have q1: "quality v1 = ''medium''" by blast
  from t1 n1' sMedium have q1': "quality v1 = ''medium''" by metis
  from t2 n2 s1080 have q2: "quality v2 = ''1080p''" by metis
  from t3 n3 s720 have q3: "quality v3 = ''720p''" by metis
  from t3 n3' s720' have q3': "quality v3 = ''720p''" by metis
  from t4 n4 sNone have q4: "quality v4 = ''None''" by metis
  from t3
  have sc: "get_video_info ?pd (\<lambda>u. Inr scenario_info) scenario_url =
     Response200 \<lparr>title = ''MyVideo'',
       formats = [\<lparr>format_id = ''22'', quality = ''720p'', ext = ''mp4'', filesize = None\<rparr>]\<rparr>"
    by blast
  from v1 f1 q1 v2 f2 q2 v3 f3 q3 v4 f4 q4 sc show ?thesis by simp
qed

text \<open>
  Claim C3 as the specification words it, the note "if present", fails for a note that
  is present and empty: the format below has video and audio and the note \<open>""\<close>, and
  its quality is \<open>720p\<close>, taken from the height, not the note.
\<close>

theorem info_quality_empty_note_counterexample:
  "empty_note_format ''format_note'' = Some (PStr []) \<and>
   has_video_and_audio empty_note_format \<and>
   make_video_format sample_pydantic empty_note_format =
     Inr \<lparr>format_id = ''22'', quality = ''720p'', ext = ''mp4'', filesize = None\<rparr>"
  by (simp add: empty_note_format_def scenario_format_def has_video_and_audio_def
      make_video_format_def validate_str_def validate_optional_int_def
      quality_label_def dict_get_def dict_item_def py_or_def
      show_int_def show_nat.simps digit_char_def)

text \<open>
  Claim C4. When the extractor succeeds and no format passes the video-and-audio test,
  the handler answers 404 with its message; and it never answers 200 with an empty
  formats list.
\<close>

theorem info_no_formats_404:
  "(extract_info url = Inr info \<and> filter has_video_and_audio (info_get_formats info) = [] \<longrightarrow>
      get_video_info pd extract_info url =
        HTTPException 404 ''No se encontraron formatos de video compatibles (video+audio).'') \<and>
   get_video_info pd extract_info url \<noteq> Response200 \<lparr>title = t, formats = []\<rparr>"
proof (intro conjI impI)
  assume "extract_info url = Inr info \<and> filter has_video_and_audio (info_get_formats info) = []"
  then show "get_video_info pd extract_info url =
        HTTPException 404 ''No se encontraron formatos de video compatibles (video+audio).''"
    by (simp add: get_video_info_def collect_formats_none_kept)
next
  show "get_video_info pd extract_info url \<noteq> Response200 \<lparr>title = t, formats = []\<rparr>"
  proof
    assume "get_video_info pd extract_info url = Response200 \<lparr>title = t, formats = []\<rparr>"
    then show False by (rule get_video_info_200D) simp
  qed
qed

theorem info_no_formats_404_witness:
  "get_video_info sample_pydantic (\<lambda>u. Inr split_streams_info) scenario_url =
     HTTPException 404 ''No se encontraron formatos de video compatibles (video+audio).''"
proof -
  have "filter has_video_and_audio (info_get_formats split_streams_info) = []"
    by (simp add: split_streams_info_def info_get_formats_def has_video_and_audio_def
        dict_get_def video_only_format_def audio_only_format_def)
  with info_no_formats_404
    [of "\<lambda>u. Inr split_streams_info" scenario_url split_streams_info sample_pydantic]
  show ?thesis by simp
qed

text \<open>
  Claim C7. When the extractor call of the /info handler raises, the handler answers
  400, and the detail is its prefix followed by the text of the extractor's error.
\<close>

theorem info_extractor_failure_400:
  assumes "extract_info url = Inl e"
  shows "get_video_info pd extract_info url =
           HTTPException 400 (''Error de yt-dlp al obtener info: '' @ e)"
  using assms by (simp add: get_video_info_def)

theorem info_extractor_failure_400_witness:
  "get_video_info sample_pydantic
     (\<lambda>u. Inl ''ERROR: Unsupported URL: https://example.com/'') scenario_url =
     HTTPException 400
       ''Error de yt-dlp al obtener info: ERROR: Unsupported URL: https://example.com/''"
  using info_extractor_failure_400
    [of "\<lambda>u. Inl ''ERROR: Unsupported URL: https://example.com/''" scenario_url
        "''ERROR: Unsupported URL: https://example.com/''" sample_pydantic]
  by simp

section \<open>The /download handler\<close>

lemma mkdtemp_simps [simp]:
  "dirs (mkdtemp d w) = insert d (dirs w)"
  "files (mkdtemp d w) = files w"
  "trace (mkdtemp d w) = trace w @ [Mkdtemp d]"
  by (simp_all add: mkdtemp_def)

lemma run_extractor_simps [simp]:
  "dirs (run_extractor url fmt t out w) = dirs w"
  "files (run_extractor url fmt t out w) = files w ++ map_of (written out)"
  "trace (run_extractor url fmt t out w) = trace w @ [Extract url fmt t]"
  by (simp_all add: run_extractor_def)

lemma not_under_self [simp]: "\<not> under d d"
  by (simp add: under_def prefix_def)

text \<open>The failure path: the directory is removed inside the handler, and nothing is
  left for later.\<close>

lemma download_video_failure:
  assumes "prepared (ydl url fmt (ydl_outtmpl temp_dir)) = Inl e"
  shows "outcome (download_video ydl temp_dir url fmt w) =
           HTTPException 500 (''Error de yt-dlp al descargar: '' @ e)"
    and "background_tasks (download_video ydl temp_dir url fmt w) = []"
    and "dirs (world_after (download_video ydl temp_dir url fmt w)) =
           {x \<in> dirs w. x \<noteq> temp_dir \<and> \<not> under temp_dir x}"
    and "under temp_dir p \<Longrightarrow> files (world_after (download_video ydl temp_dir url fmt w)) p = None"
    and "trace (world_after (download_video ydl temp_dir url fmt w)) =
           trace w @ [Mkdtemp temp_dir, Extract url fmt (ydl_outtmpl temp_dir), Rmtree temp_dir]"
  using assms by (auto simp: download_video_def Let_def rmtree_def)

text \<open>The success path: the handler returns the file response and one scheduled task,
  in the state the extractor left.\<close>

lemma download_video_success:
  assumes "prepared (ydl url fmt (ydl_outtmpl temp_dir)) = Inr p"
  shows "download_video ydl temp_dir url fmt w =
           \<lparr>outcome = Response200
               \<lparr>path = p, media_type = ''application/octet-stream'',
                filename = sanitize_filename (os_path_basename p)\<rparr>,
            background_tasks = [Task_rmtree temp_dir],
            world_after =
              run_extractor url fmt (ydl_outtmpl temp_dir) (ydl url fmt (ydl_outtmpl temp_dir))
                (mkdtemp temp_dir w)\<rparr>"
  using assms by (simp add: download_video_def Let_def)

lemma respond_frame [simp]:
  "dirs (snd (respond r w)) = dirs w"
  "files (snd (respond r w)) = files w"
  by (simp_all add: respond_def split: http_result.splits option.splits)

lemma serve_download_failure:
  assumes "prepared (ydl url fmt (ydl_outtmpl temp_dir)) = Inl e"
  shows "fst (serve_download ydl temp_dir url fmt w) =
           Sent_error 500 (''Error de yt-dlp al descargar: '' @ e)"
    and "dirs (snd (serve_download ydl temp_dir url fmt w)) =
           {x \<in> dirs w. x \<noteq> temp_dir \<and> \<not> under temp_dir x}"
    and "trace (snd (serve_download ydl temp_dir url fmt w)) =
           trace w @ [Mkdtemp temp_dir, Extract url fmt (ydl_outtmpl temp_dir),
                      Rmtree temp_dir, Respond 500]"
  using download_video_failure [where ydl = ydl and url = url and fmt = fmt and temp_dir = temp_dir and w = w, OF assms]
  by (simp_all add: serve_download_def Let_def respond_def split_beta)

lemma serve_download_success:
  assumes "prepared (ydl url fmt (ydl_outtmpl temp_dir)) = Inr p"
  shows "fst (serve_download ydl temp_dir url fmt w) =
           (case (files w ++ map_of (written (ydl url fmt (ydl_outtmpl temp_dir)))) p of
              Some bytes \<Rightarrow>
                Sent_file bytes ''application/octet-stream'' (sanitize_filename (os_path_basename p))
            | None \<Rightarrow> Sent_server_error)"
  using download_video_success [where ydl = ydl and url = url and fmt = fmt and temp_dir = temp_dir and w = w, OF assms]
  by (auto simp: serve_download_def Let_def respond_def split: option.splits)

text \<open>When the produced file is on disk, the scheduled removal runs after the response.\<close>

lemma serve_download_file_sent:
  assumes "prepared (ydl url fmt (ydl_outtmpl temp_dir)) = Inr p"
    and "(files w ++ map_of (written (ydl url fmt (ydl_outtmpl temp_dir)))) p = Some bytes"
  shows "dirs (snd (serve_download ydl temp_dir url fmt w)) =
           {x \<in> dirs w. x \<noteq> temp_dir \<and> \<not> under temp_dir x}"
    and "trace (snd (serve_download ydl temp_dir url fmt w)) =
           trace w @ [Mkdtemp temp_dir, Extract url fmt (ydl_outtmpl temp_dir),
                      Respond 200, Rmtree temp_dir]"
proof -
  note r = download_video_success
    [where ydl = ydl and url = url and fmt = fmt and temp_dir = temp_dir and w = w, OF assms(1)]
  show "dirs (snd (serve_download ydl temp_dir url fmt w)) =
           {x \<in> dirs w. x \<noteq> temp_dir \<and> \<not> under temp_dir x}"
    by (auto simp: serve_download_def Let_def respond_def rmtree_def r assms(2))
  show "trace (snd (serve_download ydl temp_dir url fmt w)) =
           trace w @ [Mkdtemp temp_dir, Extract url fmt (ydl_outtmpl temp_dir),
                      Respond 200, Rmtree temp_dir]"
    by (simp add: serve_download_def Let_def respond_def rmtree_def r assms(2))
qed

text \<open>When there is no file at the produced path, the response fails and the scheduled
  removal never runs: the request ends in the state in which the handler returned, but
  for the log.\<close>

lemma serve_download_file_missing:
  assumes "prepared (ydl url fmt (ydl_outtmpl temp_dir)) = Inr p"
    and "(files w ++ map_of (written (ydl url fmt (ydl_outtmpl temp_dir)))) p = None"
  shows "fst (serve_download ydl temp_dir url fmt w) = Sent_server_error"
    and "dirs (snd (serve_download ydl temp_dir url fmt w)) = insert temp_dir (dirs w)"
    and "files (snd (serve_download ydl temp_dir url fmt w)) =
           files w ++ map_of (written (ydl url fmt (ydl_outtmpl temp_dir)))"
    and "trace (snd (serve_download ydl temp_dir url fmt w)) =
           trace w @ [Mkdtemp temp_dir, Extract url fmt (ydl_outtmpl temp_dir), Respond 500]"
  by (simp_all add: serve_download_def Let_def respond_def assms(2)
      download_video_success
        [where ydl = ydl and url = url and fmt = fmt and temp_dir = temp_dir and w = w, OF assms(1)])

lemma sanitize_filename_clean:
  "set (sanitize_filename s) \<inter>
     {CHR 0x5C, CHR ''/'', CHR ''*'', CHR ''?'', CHR '':'', CHR 0x22, CHR ''<'', CHR ''>'', CHR ''|''} = {}"
  unfolding sanitize_filename_filter set_invalid_chars by auto

lemmas download_eval =
  download_video_def serve_download_def respond_def Let_def mkdtemp_def run_extractor_def
  rmtree_def under_def ydl_outtmpl_def os_path_join_def os_path_basename_def
  sanitize_filename_def invalid_chars_def failing_ydl_def working_ydl_def empty_world_def

text \<open>
  Claim C5. When the extractor call of the /download handler raises, the handler
  removes the request's temporary directory itself, before it raises its answer: the
  answer is status 500 with the extractor's error text after the handler's prefix, and
  in the state in which the handler raises the directory and everything in it are gone,
  the removal is the handler's last call, and no task is left for later.
\<close>

theorem download_failure_removes_temp_dir:
  assumes "prepared (ydl url fmt (ydl_outtmpl temp_dir)) = Inl e"
  shows "outcome (download_video ydl temp_dir url fmt w) =
           HTTPException 500 (''Error de yt-dlp al descargar: '' @ e) \<and>
         temp_dir \<notin> dirs (world_after (download_video ydl temp_dir url fmt w)) \<and>
         (\<forall>p. under temp_dir p \<longrightarrow>
            files (world_after (download_video ydl temp_dir url fmt w)) p = None) \<and>
         trace (world_after (download_video ydl temp_dir url fmt w)) =
           trace w @ [Mkdtemp temp_dir, Extract url fmt (ydl_outtmpl temp_dir), Rmtree temp_dir] \<and>
         background_tasks (download_video ydl temp_dir url fmt w) = []"
  using download_video_failure
    [where ydl = ydl and url = url and fmt = fmt and temp_dir = temp_dir and w = w, OF assms]
  by simp

theorem download_failure_removes_temp_dir_witness:
  "outcome (download_video failing_ydl ''/tmp/tmpk3x'' scenario_url ''22'' empty_world) =
     HTTPException 500
       ''Error de yt-dlp al descargar: ERROR: Requested format is not available'' \<and>
   ''/tmp/tmpk3x'' \<notin>
     dirs (world_after (download_video failing_ydl ''/tmp/tmpk3x'' scenario_url ''22'' empty_world)) \<and>
   files (world_after (download_video failing_ydl ''/tmp/tmpk3x'' scenario_url ''22'' empty_world))
     ''/tmp/tmpk3x/My:Video.mp4.part'' = None \<and>
   trace (world_after (download_video failing_ydl ''/tmp/tmpk3x'' scenario_url ''22'' empty_world)) =
     [Mkdtemp ''/tmp/tmpk3x'',
      Extract ''https://example.com/watch?v=abc'' ''22'' ''/tmp/tmpk3x/%(title)s.%(ext)s'',
      Rmtree ''/tmp/tmpk3x'']"
proof -
  have h: "prepared (failing_ydl scenario_url ''22'' (ydl_outtmpl ''/tmp/tmpk3x'')) =
             Inl ''ERROR: Requested format is not available''"
    by (simp add: failing_ydl_def)
  have u: "under ''/tmp/tmpk3x'' ''/tmp/tmpk3x/My:Video.mp4.part''"
    by (simp add: under_def)
  from download_failure_removes_temp_dir
    [where ydl = failing_ydl and url = scenario_url and fmt = "''22''"
       and temp_dir = "''/tmp/tmpk3x''" and w = empty_world, OF h] u
  show ?thesis
    by (simp add: empty_world_def ydl_outtmpl_def os_path_join_def scenario_url_def)
qed

text \<open>
  Claim C6 (every /download request removes its temporary directory exactly once, and
  the directory does not exist when the request is over) does not hold of the handler.
  When the extractor succeeds and there is no file at the path it computed, the handler
  has scheduled the removal (line 121) and removed nothing; the file response then fails
  while it is being sent, the scheduled task never runs, and the directory stays on disk
  with the file the extractor did write. The request below is such a one: the log of
  the whole request holds no removal, and the directory and the file are still there.
\<close>

theorem download_missing_file_leaves_temp_dir:
  "outcome (download_video misnaming_ydl ''/tmp/tmpk3x'' scenario_url ''22'' empty_world) =
     Response200 \<lparr>path = ''/tmp/tmpk3x/My:Video.webm'', media_type = ''application/octet-stream'',
                  filename = ''MyVideo.webm''\<rparr> \<and>
   background_tasks (download_video misnaming_ydl ''/tmp/tmpk3x'' scenario_url ''22'' empty_world) =
     [Task_rmtree ''/tmp/tmpk3x''] \<and>
   fst (serve_download misnaming_ydl ''/tmp/tmpk3x'' scenario_url ''22'' empty_world) =
     Sent_server_error \<and>
   trace (snd (serve_download misnaming_ydl ''/tmp/tmpk3x'' scenario_url ''22'' empty_world)) =
     [Mkdtemp ''/tmp/tmpk3x'',
      Extract ''https://example.com/watch?v=abc'' ''22'' ''/tmp/tmpk3x/%(title)s.%(ext)s'',
      Respond 500] \<and>
   ''/tmp/tmpk3x'' \<in>
     dirs (snd (serve_download misnaming_ydl ''/tmp/tmpk3x'' scenario_url ''22'' empty_world)) \<and>
   files (snd (serve_download misnaming_ydl ''/tmp/tmpk3x'' scenario_url ''22'' empty_world))
     ''/tmp/tmpk3x/My:Video.mkv'' = Some ''abc''"
  by (simp add: download_eval misnaming_ydl_def scenario_url_def)

text \<open>
  Claim C9. When the extractor succeeds, the /download handler returns a file response
  for the produced file's path, with the content type \<open>application/octet-stream\<close> and
  the sanitized basename of that path as the suggested filename; that filename holds
  none of the nine characters; and when the produced file is on disk, what the client
  receives is its bytes, with that content type and that filename.
\<close>

theorem download_success_response:
  assumes "prepared (ydl url fmt (ydl_outtmpl temp_dir)) = Inr p"
  shows "outcome (download_video ydl temp_dir url fmt w) =
           Response200 \<lparr>path = p, media_type = ''application/octet-stream'',
                        filename = sanitize_filename (os_path_basename p)\<rparr> \<and>
         set (sanitize_filename (os_path_basename p)) \<inter>
           {CHR 0x5C, CHR ''/'', CHR ''*'', CHR ''?'', CHR '':'', CHR 0x22,
            CHR ''<'', CHR ''>'', CHR ''|''} = {} \<and>
         (\<forall>bytes. files (world_after (download_video ydl temp_dir url fmt w)) p = Some bytes \<longrightarrow>
            fst (serve_download ydl temp_dir url fmt w) =
              Sent_file bytes ''application/octet-stream'' (sanitize_filename (os_path_basename p)))"
  using serve_download_success
    [where ydl = ydl and url = url and fmt = fmt and temp_dir = temp_dir and w = w, OF assms]
  by (simp add: download_video_success
        [where ydl = ydl and url = url and fmt = fmt and temp_dir = temp_dir and w = w, OF assms]
      sanitize_filename_clean)

theorem download_success_response_witness:
  "outcome (download_video working_ydl ''/tmp/tmpk3x'' scenario_url ''22'' empty_world) =
     Response200 \<lparr>path = ''/tmp/tmpk3x/My:Video.mp4'', media_type = ''application/octet-stream'',
                  filename = ''MyVideo.mp4''\<rparr> \<and>
   fst (serve_download working_ydl ''/tmp/tmpk3x'' scenario_url ''22'' empty_world) =
     Sent_file ''abc'' ''application/octet-stream'' ''MyVideo.mp4''"
proof -
  have g: "prepared (working_ydl scenario_url ''22'' (ydl_outtmpl ''/tmp/tmpk3x'')) =
             Inr ''/tmp/tmpk3x/My:Video.mp4''"
    by (simp add: working_ydl_def)
  have b: "files (world_after (download_video working_ydl ''/tmp/tmpk3x'' scenario_url ''22'' empty_world))
             ''/tmp/tmpk3x/My:Video.mp4'' = Some ''abc''"
    by (simp add: download_eval)
  have n: "sanitize_filename (os_path_basename ''/tmp/tmpk3x/My:Video.mp4'') = ''MyVideo.mp4''"
    by (simp add: os_path_basename_def sanitize_filename_def invalid_chars_def)
  from download_success_response
    [where ydl = working_ydl and url = scenario_url and fmt = "''22''"
       and temp_dir = "''/tmp/tmpk3x''" and w = empty_world, OF g] b n
  show ?thesis by simp
qed

text \<open>
  Claim C10. When the extractor succeeds, only the suggested filename is sanitized. The
  path of the file response is the path the extractor computed, as it is; the state in
  which the handler returns is the state the extractor left after the directory was
  made, so the handler writes, renames and removes nothing; and the bytes sent are read
  at that path.
\<close>

theorem download_sanitizes_suggested_name_only:
  assumes "prepared (ydl url fmt (ydl_outtmpl temp_dir)) = Inr p"
  shows "(\<exists>name. outcome (download_video ydl temp_dir url fmt w) =
            Response200 \<lparr>path = p, media_type = ''application/octet-stream'', filename = name\<rparr>) \<and>
         world_after (download_video ydl temp_dir url fmt w) =
           run_extractor url fmt (ydl_outtmpl temp_dir) (ydl url fmt (ydl_outtmpl temp_dir))
             (mkdtemp temp_dir w) \<and>
         files (world_after (download_video ydl temp_dir url fmt w)) =
           files w ++ map_of (written (ydl url fmt (ydl_outtmpl temp_dir))) \<and>
         fst (serve_download ydl temp_dir url fmt w) =
           (case files (world_after (download_video ydl temp_dir url fmt w)) p of
              Some bytes \<Rightarrow>
                Sent_file bytes ''application/octet-stream'' (sanitize_filename (os_path_basename p))
            | None \<Rightarrow> Sent_server_error)"
  using serve_download_success
    [where ydl = ydl and url = url and fmt = fmt and temp_dir = temp_dir and w = w, OF assms]
  by (simp add: download_video_success
        [where ydl = ydl and url = url and fmt = fmt and temp_dir = temp_dir and w = w, OF assms])

theorem download_sanitizes_suggested_name_only_witness:
  "path (case outcome (download_video working_ydl ''/tmp/tmpk3x'' scenario_url ''22'' empty_world) of
           Response200 fr \<Rightarrow> fr) = ''/tmp/tmpk3x/My:Video.mp4'' \<and>
   files (world_after (download_video working_ydl ''/tmp/tmpk3x'' scenario_url ''22'' empty_world))
     ''/tmp/tmpk3x/My:Video.mp4'' = Some ''abc'' \<and>
   files (world_after (download_video working_ydl ''/tmp/tmpk3x'' scenario_url ''22'' empty_world))
     ''/tmp/tmpk3x/MyVideo.mp4'' = None \<and>
   fst (serve_download working_ydl ''/tmp/tmpk3x'' scenario_url ''22'' empty_world) =
     Sent_file ''abc'' ''application/octet-stream'' ''MyVideo.mp4''"
proof -
  have g: "prepared (working_ydl scenario_url ''22'' (ydl_outtmpl ''/tmp/tmpk3x'')) =
             Inr ''/tmp/tmpk3x/My:Video.mp4''"
    by (simp add: working_ydl_def)
  have n: "sanitize_filename (os_path_basename ''/tmp/tmpk3x/My:Video.mp4'') = ''MyVideo.mp4''"
    by (simp add: os_path_basename_def sanitize_filename_def invalid_chars_def)
  have w: "written (working_ydl scenario_url ''22'' (ydl_outtmpl ''/tmp/tmpk3x'')) =
             [(''/tmp/tmpk3x/My:Video.mp4'', ''abc'')]"
    by (simp add: working_ydl_def)
  from download_sanitizes_suggested_name_only
    [where ydl = working_ydl and url = scenario_url and fmt = "''22''"
       and temp_dir = "''/tmp/tmpk3x''" and w = empty_world, OF g]
  show ?thesis
    by (auto simp: n w empty_world_def)
qed

end
